theory Spec2Isabelle
  imports Complex_Main "HOL-Library.AList" "HOL-Library.Char_ord" "HOL-Library.List_Lexorder"
begin

section \<open>Data model (types/whiteboard.ts)\<close>

text \<open>
  JavaScript numbers are modelled without NaN and infinities: timestamps and counters as
  \<open>int\<close> (milliseconds of \<open>Date.now()\<close>), coordinates as \<open>real\<close>.
  A JavaScript string is a \<open>string\<close> whose characters are read as the code units
  U+0000..U+00FF; \<open>a > b\<close> on strings is the lexicographic order on code units, which is
  the order of \<open>HOL-Library.List_Lexorder\<close> over \<open>HOL-Library.Char_ord\<close>.
  An optional field \<open>f?: T\<close> is a \<open>T option\<close>, \<open>None\<close> standing for
  \<open>undefined\<close>.
\<close>

datatype DrawingTool = Pen | Eraser | Rectangle | Circle | Line

record Point =
  point_x :: real
  point_y :: real

text \<open>
  \<open>WhiteboardElementData\<close> is the union of \<open>DrawingElementData\<close> and
  \<open>MarkdownElementData\<close>; the manager reads it through the casts
  \<open>element.data as DrawingElementData\<close> and \<open>element.data as MarkdownElementData\<close>,
  so a payload is modelled as the object it is at run time: one record holding the fields
  of both interfaces, a field of the other interface being \<open>None\<close>.
  The fields \<open>x\<close> and \<open>y\<close> of \<open>MarkdownElementData\<close> are named
  \<open>md_x\<close> and \<open>md_y\<close>.
\<close>

record ElementData =
  tool :: "DrawingTool option"
  color :: "string option"
  strokeWidth :: "real option"
  startX :: "real option"
  startY :: "real option"
  endX :: "real option"
  endY :: "real option"
  path :: "Point list option"
  points :: "Point list option"
  content :: "string option"
  md_x :: "real option"
  md_y :: "real option"
  width :: "real option"
  height :: "real option"

datatype ElementType = Drawing | Markdown

text \<open>
  The fields \<open>id\<close> and \<open>type\<close> of \<open>WhiteboardElement\<close> are named
  \<open>elem_id\<close> and \<open>elem_type\<close>.
\<close>

record WhiteboardElement =
  elem_id :: string
  elem_type :: ElementType
  data :: ElementData
  timestamp :: int
  userId :: string
  deleted :: "bool option"

section \<open>The replica (class CRDTManager)\<close>

text \<open>
  A JavaScript \<open>Map\<close> keeps its entries in insertion order: \<open>set\<close> on a
  present key overwrites the value in place, on an absent key appends the entry, and
  \<open>delete\<close> removes the entry. This is an association list under
  \<open>AList.update\<close> and \<open>AList.delete\<close>; \<open>get\<close> is \<open>map_of\<close>.
  The field \<open>userId\<close> of the manager is named \<open>localUserId\<close>.
\<close>

record CRDTManager =
  elements :: "(string \<times> WhiteboardElement) list"
  localUserId :: string
  vector :: "(string \<times> int) list"

definition constructor :: "string \<Rightarrow> CRDTManager" where
  "constructor uid = \<lparr>elements = [], localUserId = uid, vector = AList.update uid 0 []\<rparr>"

text \<open>\<open>if (element.deleted)\<close>: \<open>undefined\<close> and \<open>false\<close> are falsy.\<close>

definition truthy :: "bool option \<Rightarrow> bool" where
  "truthy b = (b = Some True)"

text \<open>\<open>a || d\<close> for an optional number: \<open>undefined\<close> and \<open>0\<close> give \<open>d\<close>.\<close>

definition orElse :: "'a::zero option \<Rightarrow> 'a \<Rightarrow> 'a" where
  "orElse a d = (case a of None \<Rightarrow> d | Some v \<Rightarrow> if v = 0 then d else v)"

text \<open>\<open>data.path || data.points || []\<close>: an array, even an empty one, is truthy.\<close>

definition pathOf :: "ElementData \<Rightarrow> Point list" where
  "pathOf d = (case path d of Some p \<Rightarrow> p
               | None \<Rightarrow> (case points d of Some p \<Rightarrow> p | None \<Rightarrow> []))"

text \<open>\<open>path[0] || { x: 0, y: 0 }\<close>: reading index 0 of an empty array is \<open>undefined\<close>.\<close>

definition firstPoint :: "Point list \<Rightarrow> Point" where
  "firstPoint p = (case p of [] \<Rightarrow> \<lparr>point_x = 0, point_y = 0\<rparr> | q # _ \<Rightarrow> q)"

text \<open>
  \<open>String.prototype.trim\<close> removes white space and line terminators from both ends;
  among the code units U+0000..U+00FF these are TAB, LF, VT, FF, CR, SP and NBSP.
\<close>

definition isWhiteSpace :: "char \<Rightarrow> bool" where
  "isWhiteSpace c = (of_char c \<in> {9, 10, 11, 12, 13, 32, 160 :: nat})"

definition trim :: "string \<Rightarrow> string" where
  "trim s = rev (dropWhile isWhiteSpace (rev (dropWhile isWhiteSpace s)))"

text \<open>
  In \<open>isElementComplete\<close> the \<open>default\<close> branch of the switch on the tool is the
  case of a payload without a tool; the \<open>default\<close> branch of the switch on the type is
  not reached by an element of one of the two types.
\<close>

definition isElementComplete :: "WhiteboardElement \<Rightarrow> bool" where
  "isElementComplete element =
     (case elem_type element of
        Drawing \<Rightarrow>
          (let d = data element in
           case tool d of
             Some Pen \<Rightarrow> length (pathOf d) > 2
           | Some Eraser \<Rightarrow> length (pathOf d) > 2
           | Some Rectangle \<Rightarrow>
               startX d \<noteq> None \<and> startY d \<noteq> None \<and> endX d \<noteq> None \<and> endY d \<noteq> None \<and>
               \<bar>orElse (endX d) 0 - orElse (startX d) 0\<bar> > 5 \<and>
               \<bar>orElse (endY d) 0 - orElse (startY d) 0\<bar> > 5
           | Some Circle \<Rightarrow>
               startX d \<noteq> None \<and> startY d \<noteq> None \<and> endX d \<noteq> None \<and> endY d \<noteq> None \<and>
               \<bar>orElse (endX d) 0 - orElse (startX d) 0\<bar> > 5 \<and>
               \<bar>orElse (endY d) 0 - orElse (startY d) 0\<bar> > 5
           | Some Line \<Rightarrow>
               startX d \<noteq> None \<and> startY d \<noteq> None \<and> endX d \<noteq> None \<and> endY d \<noteq> None
           | None \<Rightarrow> True)
      | Markdown \<Rightarrow>
          (case content (data element) of
             None \<Rightarrow> False
           | Some c \<Rightarrow> trim c \<noteq> []))"

definition areConcurrent :: "WhiteboardElement \<Rightarrow> WhiteboardElement \<Rightarrow> bool" where
  "areConcurrent element1 element2 = (\<bar>timestamp element1 - timestamp element2\<bar> \<le> 500)"

definition strokeTool :: "DrawingTool option \<Rightarrow> bool" where
  "strokeTool t = (t = Some Pen \<or> t = Some Eraser)"

definition resolveConcurrentConflict :: "WhiteboardElement \<Rightarrow> WhiteboardElement \<Rightarrow> bool" where
  "resolveConcurrentConflict newElement existingElement =
     (if elem_type newElement = Drawing \<and> elem_type existingElement = Drawing \<and>
         strokeTool (tool (data newElement))
      then
        (if userId newElement = userId existingElement
         then timestamp newElement > timestamp existingElement
         else
           (let newPos = firstPoint (pathOf (data newElement));
                existingPos = firstPoint (pathOf (data existingElement))
            in if \<bar>point_x newPos - point_x existingPos\<bar> < 10 \<and>
                  \<bar>point_y newPos - point_y existingPos\<bar> < 10
               then timestamp newElement > timestamp existingElement
               else True))
      else if elem_type newElement = Drawing \<and> \<not> strokeTool (tool (data newElement)) \<and>
              isElementComplete newElement \<and> \<not> isElementComplete existingElement
      then True
      else if elem_type newElement = Drawing \<and> \<not> strokeTool (tool (data newElement)) \<and>
              \<not> isElementComplete newElement \<and> isElementComplete existingElement
      then False
      else userId newElement > userId existingElement)"

definition shouldApplyOperation :: "WhiteboardElement \<Rightarrow> WhiteboardElement \<Rightarrow> bool" where
  "shouldApplyOperation newElement existingElement =
     (let timeDiff = \<bar>timestamp newElement - timestamp existingElement\<bar> in
      if timeDiff > 1000 then timestamp newElement > timestamp existingElement
      else if areConcurrent newElement existingElement
      then resolveConcurrentConflict newElement existingElement
      else if timestamp newElement > timestamp existingElement then True
      else if timestamp newElement = timestamp existingElement
      then userId newElement > userId existingElement
      else False)"

definition updateVectorClock :: "CRDTManager \<Rightarrow> string \<Rightarrow> CRDTManager" where
  "updateVectorClock m uid =
     (let currentValue = orElse (map_of (vector m) uid) 0
      in m\<lparr>vector := AList.update uid (currentValue + 1) (vector m)\<rparr>)"

text \<open>
  \<open>applyOperation\<close> returns its boolean together with the manager after the call.
  \<open>!existingElement\<close> holds exactly when the id has no entry: a stored element is an
  object, and every object is truthy.
\<close>

definition applyOperation :: "CRDTManager \<Rightarrow> WhiteboardElement \<Rightarrow> bool \<times> CRDTManager" where
  "applyOperation m element =
     (let existingElement = map_of (elements m) (elem_id element) in
      if truthy (deleted element) then
        (if (case existingElement of None \<Rightarrow> True
             | Some ex \<Rightarrow> timestamp element > timestamp ex)
         then (True, updateVectorClock
                       (m\<lparr>elements := AList.delete (elem_id element) (elements m)\<rparr>)
                       (userId element))
         else (False, m))
      else
        (if (case existingElement of None \<Rightarrow> True
             | Some ex \<Rightarrow> shouldApplyOperation element ex)
         then (True, updateVectorClock
                       (m\<lparr>elements := AList.update (elem_id element) element (elements m)\<rparr>)
                       (userId element))
         else (False, m)))"

definition deleteElement :: "CRDTManager \<Rightarrow> string \<Rightarrow> CRDTManager" where
  "deleteElement m elementId = m\<lparr>elements := AList.delete elementId (elements m)\<rparr>"

definition getState :: "CRDTManager \<Rightarrow> (string \<times> WhiteboardElement) list" where
  "getState m = elements m"

definition getAllElements :: "CRDTManager \<Rightarrow> WhiteboardElement list" where
  "getAllElements m = filter (\<lambda>el. \<not> truthy (deleted el)) (map snd (elements m))"

definition merge :: "CRDTManager \<Rightarrow> WhiteboardElement list \<Rightarrow> CRDTManager" where
  "merge m remoteElements = fold (\<lambda>element s. snd (applyOperation s element)) remoteElements m"

definition clear :: "CRDTManager \<Rightarrow> CRDTManager" where
  "clear m = m\<lparr>elements := [], vector := AList.update (localUserId m) 0 []\<rparr>"

definition setVectorClock :: "CRDTManager \<Rightarrow> (string \<times> int) list \<Rightarrow> CRDTManager" where
  "setVectorClock m v = m\<lparr>vector := v\<rparr>"

section \<open>The inbound message handler (component Whiteboard)\<close>

text \<open>
  The handler registered with \<open>wsService.onMessage\<close>. The component holds the replica in
  \<open>crdtManager.current\<close> (possibly null), its own id \<open>userId\<close> (named
  \<open>wb_userId\<close>) and the React state \<open>elements\<close> (named \<open>wb_elements\<close>) that is
  handed to the canvas. A message is read through the fields its branch uses:
  \<open>sync\<close> carries \<open>data.state\<close> (the entries of the object in the order of
  \<open>Object.entries\<close>), \<open>operation\<close> carries \<open>data\<close> and \<open>senderId\<close>,
  \<open>batch_operations\<close> carries \<open>data.operations\<close> and \<open>data.senderId\<close>,
  \<open>delete\<close> carries \<open>elementId\<close>; every other type is ignored.
\<close>

record Whiteboard =
  crdtManager :: "CRDTManager option"
  wb_userId :: string
  wb_elements :: "(string \<times> WhiteboardElement) list"

datatype Message =
    Sync "(string \<times> WhiteboardElement) list"
  | Operation WhiteboardElement "string option"
  | BatchOperations "WhiteboardElement list" "string option"
  | Delete string
  | OtherMessage

fun onMessage :: "Whiteboard \<Rightarrow> Message \<Rightarrow> Whiteboard" where
  "onMessage w (Sync state) =
     (let newElements = fold (\<lambda>(i, el) acc. AList.update i el acc) state [] in
      case crdtManager w of
        Some _ \<Rightarrow>
          w\<lparr>crdtManager := Some (fold (\<lambda>(i, el) s. snd (applyOperation s el)) state
                                   (constructor (wb_userId w))),
            wb_elements := newElements\<rparr>
      | None \<Rightarrow> w\<lparr>wb_elements := newElements\<rparr>)"
| "onMessage w (Operation operation senderId) =
     (case crdtManager w of
        Some m \<Rightarrow>
          if senderId \<noteq> Some (wb_userId w)
          then (let m' = snd (applyOperation m operation)
                in w\<lparr>crdtManager := Some m', wb_elements := getState m'\<rparr>)
          else w
      | None \<Rightarrow> w)"
| "onMessage w (BatchOperations operations senderId) =
     (case crdtManager w of
        Some m \<Rightarrow>
          if senderId \<noteq> Some (wb_userId w)
          then (let m' = fold (\<lambda>operation s. snd (applyOperation s operation)) operations m
                in w\<lparr>crdtManager := Some m', wb_elements := getState m'\<rparr>)
          else w
      | None \<Rightarrow> w)"
| "onMessage w (Delete elementId) =
     (let w' = (case crdtManager w of
                  Some m \<Rightarrow> w\<lparr>crdtManager := Some (deleteElement m elementId)\<rparr>
                | None \<Rightarrow> w)
      in w'\<lparr>wb_elements := AList.delete elementId (wb_elements w')\<rparr>)"
| "onMessage w OtherMessage = w"

section \<open>Reconnection (class WebSocketService)\<close>

text \<open>
  The fields of the service that its connection logic reads and writes. The private fields
  \<open>maxReconnectAttempts = 5\<close> and \<open>reconnectDelay = 1000\<close> are initialised once and
  never assigned, so they are constants. The socket and the interval handles are left out:
  what the socket does arrives as the events \<open>OnOpen\<close> and \<open>OnClose\<close>.
\<close>

record WebSocketService =
  clientId :: string
  roomId :: string
  reconnectAttempts :: nat
  currentUrl :: string
  isDrawing :: bool
  pendingOperations :: "WhiteboardElement list"

definition maxReconnectAttempts :: nat where
  "maxReconnectAttempts = 5"

definition reconnectDelay :: nat where
  "reconnectDelay = 1000"

definition newService :: "string \<Rightarrow> string \<Rightarrow> WebSocketService" where
  "newService cid rid =
     \<lparr>clientId = cid, roomId = rid, reconnectAttempts = 0, currentUrl = [],
      isDrawing = False, pendingOperations = []\<rparr>"

definition clearDrawingState :: "WebSocketService \<Rightarrow> WebSocketService" where
  "clearDrawingState s = s\<lparr>isDrawing := False, pendingOperations := []\<rparr>"

definition disconnect :: "WebSocketService \<Rightarrow> WebSocketService" where
  "disconnect s = clearDrawingState s"

text \<open>
  \<open>connectToRoom\<close> disconnects and opens a new socket; whether that socket opens or
  closes is a later event.
\<close>

definition connectToRoom :: "WebSocketService \<Rightarrow> string \<Rightarrow> string \<Rightarrow> WebSocketService" where
  "connectToRoom s url rid = disconnect s"

definition connect :: "WebSocketService \<Rightarrow> string \<Rightarrow> WebSocketService" where
  "connect s url = connectToRoom (s\<lparr>currentUrl := url\<rparr>) url (roomId s)"

definition onopen :: "WebSocketService \<Rightarrow> WebSocketService" where
  "onopen s = s\<lparr>reconnectAttempts := 0\<rparr>"

definition switchRoom :: "WebSocketService \<Rightarrow> string \<Rightarrow> WebSocketService" where
  "switchRoom s newRoomId =
     connectToRoom (s\<lparr>roomId := newRoomId, reconnectAttempts := 0\<rparr>) (currentUrl s) newRoomId"

text \<open>
  \<open>attemptReconnect\<close> returns the service together with the delay, in milliseconds, of
  the timer it sets with \<open>setTimeout\<close>: \<open>None\<close> when it sets none.
\<close>

definition attemptReconnect ::
  "WebSocketService \<Rightarrow> string \<Rightarrow> string \<Rightarrow> WebSocketService \<times> nat option" where
  "attemptReconnect s url rid =
     (if reconnectAttempts s < maxReconnectAttempts \<and> rid = roomId s
      then (let s' = s\<lparr>reconnectAttempts := reconnectAttempts s + 1\<rparr>
            in (s', Some (reconnectDelay * reconnectAttempts s')))
      else (s, None))"

definition onclose :: "WebSocketService \<Rightarrow> string \<Rightarrow> string \<Rightarrow> WebSocketService \<times> nat option" where
  "onclose s url rid = attemptReconnect (clearDrawingState s) url rid"

text \<open>The callback of the reconnect timer.\<close>

definition reconnectTimer :: "WebSocketService \<Rightarrow> string \<Rightarrow> string \<Rightarrow> WebSocketService" where
  "reconnectTimer s url rid = (if rid = roomId s then connectToRoom s url rid else s)"

definition sendOperation :: "WebSocketService \<Rightarrow> WhiteboardElement \<Rightarrow> WebSocketService" where
  "sendOperation s element =
     s\<lparr>isDrawing := True, pendingOperations := pendingOperations s @ [element]\<rparr>"

definition handleDrawingEnd :: "WebSocketService \<Rightarrow> WebSocketService" where
  "handleDrawingEnd s = (if isDrawing s then s\<lparr>isDrawing := False, pendingOperations := []\<rparr> else s)"

text \<open>
  Everything that can happen to a service: a call of a public method, a socket event, or a
  timer firing. \<open>step\<close> gives the service afterwards and the delay of the reconnect timer
  set meanwhile, if any. The methods that only send (\<open>sendMessage\<close>, \<open>sendCursor\<close>,
  \<open>requestSync\<close>, the heartbeat) or only read change no field and are \<open>SendOnly\<close>.
\<close>

datatype Event =
    Connect string
  | SwitchRoom string
  | Disconnect
  | OnOpen
  | OnClose string string
  | ReconnectTimer string string
  | SendOperation WhiteboardElement
  | DrawingEnd
  | SendOnly

fun step :: "WebSocketService \<Rightarrow> Event \<Rightarrow> WebSocketService \<times> nat option" where
  "step s (Connect url) = (connect s url, None)"
| "step s (SwitchRoom newRoomId) = (switchRoom s newRoomId, None)"
| "step s Disconnect = (disconnect s, None)"
| "step s OnOpen = (onopen s, None)"
| "step s (OnClose url rid) = onclose s url rid"
| "step s (ReconnectTimer url rid) = (reconnectTimer s url rid, None)"
| "step s (SendOperation element) = (sendOperation s element, None)"
| "step s DrawingEnd = (handleDrawingEnd s, None)"
| "step s SendOnly = (s, None)"

text \<open>
  \<open>failures n s\<close>: the socket closes up to \<open>n\<close> times in a row in the current room,
  with no open and no room switch in between. Each close runs \<open>onclose\<close>; when that
  sets a timer, the timer fires and reconnects, and the new socket closes again; when it
  sets none, nothing reconnects and the run is over. The result lists what each close
  scheduled.
\<close>

fun failures :: "nat \<Rightarrow> WebSocketService \<Rightarrow> nat option list" where
  "failures 0 s = []"
| "failures (Suc n) s =
     (case onclose s (currentUrl s) (roomId s) of
        (s', None) \<Rightarrow> [None]
      | (s', Some d) \<Rightarrow> Some d # failures n (reconnectTimer s' (currentUrl s) (roomId s)))"

section \<open>Calls on a replica\<close>

datatype Call =
    ApplyOperation WhiteboardElement
  | Merge "WhiteboardElement list"
  | DeleteElement string
  | Clear
  | SetVectorClock "(string \<times> int) list"

fun call :: "Call \<Rightarrow> CRDTManager \<Rightarrow> CRDTManager" where
  "call (ApplyOperation element) m = snd (applyOperation m element)"
| "call (Merge remoteElements) m = merge m remoteElements"
| "call (DeleteElement elementId) m = deleteElement m elementId"
| "call Clear m = clear m"
| "call (SetVectorClock v) m = setVectorClock m v"

definition run :: "string \<Rightarrow> Call list \<Rightarrow> CRDTManager" where
  "run uid calls = fold call calls (constructor uid)"

text \<open>No stored element has a truthy \<open>deleted\<close>.\<close>

definition noDeletedStored :: "CRDTManager \<Rightarrow> bool" where
  "noDeletedStored m = list_all (\<lambda>(k, el). \<not> truthy (deleted el)) (elements m)"

section \<open>The accept decision and the counters as mappings\<close>

text \<open>
  \<open>decide\<close> is the condition under which \<open>applyOperation\<close> accepts, as a function of the
  incoming element and of the entry stored under its id; \<open>bump\<close> is the effect of
  \<open>updateVectorClock\<close> on the counters read as a mapping. The lemmas
  \<open>applyOperation_fst\<close> and \<open>vector_updateVectorClock\<close> below prove that this is what
  the code computes.
\<close>

definition decide :: "WhiteboardElement \<Rightarrow> WhiteboardElement option \<Rightarrow> bool" where
  "decide incoming existing =
     (case existing of
        None \<Rightarrow> True
      | Some ex \<Rightarrow> if truthy (deleted incoming) then timestamp incoming > timestamp ex
                   else shouldApplyOperation incoming ex)"

definition bump :: "(string \<rightharpoonup> int) \<Rightarrow> string \<Rightarrow> (string \<rightharpoonup> int)" where
  "bump f u = f(u \<mapsto> orElse (f u) 0 + 1)"

section \<open>Example elements and replicas\<close>

definition noData :: ElementData where
  "noData = \<lparr>tool = None, color = None, strokeWidth = None, startX = None, startY = None,
             endX = None, endY = None, path = None, points = None, content = None,
             md_x = None, md_y = None, width = None, height = None\<rparr>"

definition shapeData ::
  "DrawingTool \<Rightarrow> real option \<Rightarrow> real option \<Rightarrow> real option \<Rightarrow> real option \<Rightarrow> ElementData" where
  "shapeData t sx sy ex ey =
     noData\<lparr>tool := Some t, color := Some ''#ffffff'', strokeWidth := Some 2,
            startX := sx, startY := sy, endX := ex, endY := ey\<rparr>"

definition strokeData :: "DrawingTool \<Rightarrow> Point list \<Rightarrow> ElementData" where
  "strokeData t ps =
     noData\<lparr>tool := Some t, color := Some ''#ffffff'', strokeWidth := Some 2, path := Some ps\<rparr>"

definition markdownData :: "string \<Rightarrow> ElementData" where
  "markdownData c =
     noData\<lparr>content := Some c, md_x := Some 40, md_y := Some 60,
            width := Some 300, height := Some 200\<rparr>"

definition element ::
  "string \<Rightarrow> ElementType \<Rightarrow> ElementData \<Rightarrow> int \<Rightarrow> string \<Rightarrow> WhiteboardElement" where
  "element i t d ts u =
     \<lparr>elem_id = i, elem_type = t, data = d, timestamp = ts, userId = u, deleted = None\<rparr>"

definition deletion :: "string \<Rightarrow> int \<Rightarrow> string \<Rightarrow> WhiteboardElement" where
  "deletion i ts u =
     \<lparr>elem_id = i, elem_type = Drawing, data = noData, timestamp = ts, userId = u,
      deleted = Some True\<rparr>"

definition pt :: "real \<Rightarrow> real \<Rightarrow> Point" where
  "pt a b = \<lparr>point_x = a, point_y = b\<rparr>"

text \<open>
  A complete rectangle \<open>r1\<close> drawn by alice at time 1000, and the same id from bob 200ms
  later with only the start corner set.
\<close>

definition fullRect :: WhiteboardElement where
  "fullRect = element ''r1'' Drawing (shapeData Rectangle (Some 10) (Some 10) (Some 80) (Some 60))
                1000 ''alice''"

definition partRect :: WhiteboardElement where
  "partRect = element ''r1'' Drawing (shapeData Rectangle (Some 10) (Some 10) None None)
                1200 ''bob''"

text \<open>The replica of alice after she has drawn \<open>fullRect\<close>.\<close>

definition store1 :: CRDTManager where
  "store1 = snd (applyOperation (constructor ''alice'') fullRect)"

text \<open>
  A replica of bob that agrees with \<open>store1\<close> on \<open>r1\<close> and differs from it in another
  entry and in the counters.
\<close>

definition store2 :: CRDTManager where
  "store2 = \<lparr>elements = [(''m7'', element ''m7'' Markdown (markdownData ''note'') 5 ''carol''),
                         (''r1'', fullRect)],
             localUserId = ''bob'',
             vector = [(''bob'', 0), (''carol'', 41), (''alice'', 7)]\<rparr>"

text \<open>Pen strokes under the id \<open>s1\<close>, and the replica of alice holding hers.\<close>

definition alicePen :: WhiteboardElement where
  "alicePen = element ''s1'' Drawing (strokeData Pen [pt 0 0, pt 5 5, pt 9 9]) 1000 ''alice''"

definition bobPen :: "Point list \<Rightarrow> int \<Rightarrow> WhiteboardElement" where
  "bobPen ps ts = element ''s1'' Drawing (strokeData Pen ps) ts ''bob''"

definition storePen :: CRDTManager where
  "storePen = snd (applyOperation (constructor ''alice'') alicePen)"

text \<open>Text blocks under the id \<open>m7\<close>, and the replica of carol after receiving one.\<close>

definition textNote :: "string \<Rightarrow> int \<Rightarrow> string \<Rightarrow> WhiteboardElement" where
  "textNote c ts u = element ''m7'' Markdown (markdownData c) ts u"

definition storeNote :: "WhiteboardElement \<Rightarrow> CRDTManager" where
  "storeNote e = snd (applyOperation (constructor ''carol'') e)"

definition board1 :: Whiteboard where
  "board1 = \<lparr>crdtManager = Some store1, wb_userId = ''alice'', wb_elements = elements store1\<rparr>"

section \<open>Basic facts\<close>

lemmas example_defs =
  constructor_def noData_def shapeData_def strokeData_def markdownData_def element_def
  deletion_def pt_def fullRect_def partRect_def store1_def store2_def alicePen_def bobPen_def
  storePen_def textNote_def storeNote_def

lemmas code_defs =
  applyOperation_def updateVectorClock_def shouldApplyOperation_def areConcurrent_def
  resolveConcurrentConflict_def isElementComplete_def strokeTool_def truthy_def orElse_def
  pathOf_def firstPoint_def Let_def

lemma store1_val: "elements store1 = [(''r1'', fullRect)] \<and> vector store1 = [(''alice'', 1)]"
  by (simp add: example_defs code_defs)

lemma storePen_val: "elements storePen = [(''s1'', alicePen)]"
  by (simp add: example_defs code_defs)

lemma storeNote_val: "elements (storeNote (textNote c ts u)) = [(''m7'', textNote c ts u)]"
  by (simp add: example_defs code_defs)

lemma applyOperation_fst:
  "fst (applyOperation m e) = decide e (map_of (elements m) (elem_id e))"
  by (simp add: applyOperation_def decide_def Let_def split: option.splits)

lemma applyOperation_snd:
  "snd (applyOperation m e) =
     (if decide e (map_of (elements m) (elem_id e))
      then updateVectorClock
             (m\<lparr>elements := (if truthy (deleted e) then AList.delete (elem_id e) (elements m)
                               else AList.update (elem_id e) e (elements m))\<rparr>) (userId e)
      else m)"
  by (simp add: applyOperation_def decide_def Let_def split: option.splits)

lemma elements_updateVectorClock [simp]: "elements (updateVectorClock m u) = elements m"
  by (simp add: updateVectorClock_def Let_def)

lemma localUserId_updateVectorClock [simp]: "localUserId (updateVectorClock m u) = localUserId m"
  by (simp add: updateVectorClock_def Let_def)

lemma vector_updateVectorClock:
  "map_of (vector (updateVectorClock m u)) = bump (map_of (vector m)) u"
  by (simp add: updateVectorClock_def Let_def bump_def update_conv')

lemma elements_applyOperation:
  "map_of (elements (snd (applyOperation m e))) =
     (if decide e (map_of (elements m) (elem_id e))
      then (if truthy (deleted e) then (map_of (elements m))(elem_id e := None)
            else (map_of (elements m))(elem_id e \<mapsto> e))
      else map_of (elements m))"
  by (simp add: applyOperation_snd update_conv' delete_conv')

lemma vector_applyOperation:
  "map_of (vector (snd (applyOperation m e))) =
     (if decide e (map_of (elements m) (elem_id e))
      then bump (map_of (vector m)) (userId e)
      else map_of (vector m))"
  by (simp add: applyOperation_snd vector_updateVectorClock)

lemma localUserId_applyOperation [simp]:
  "localUserId (snd (applyOperation m e)) = localUserId m"
  by (simp add: applyOperation_snd)

lemma bump_commute: "bump (bump f u) v = bump (bump f v) u"
  by (cases "u = v") (auto simp: bump_def fun_upd_twist)

lemma shouldApplyOperation_self: "\<not> shouldApplyOperation e e"
  by (simp add: shouldApplyOperation_def areConcurrent_def resolveConcurrentConflict_def Let_def)

section \<open>Deletion by operation\<close>

text \<open>
  C1. For an incoming element with \<open>deleted = true\<close>, \<open>applyOperation\<close> returns true
  exactly when its id has no stored element or its timestamp is greater than the stored
  one's. When it returns true the id is removed from the elements map; when it returns
  false the replica is unchanged, so the stored element stays as it was.
\<close>

theorem C1_delete_rule:
  assumes "truthy (deleted e)"
  shows "(fst (applyOperation m e) \<longleftrightarrow>
           (map_of (elements m) (elem_id e) = None \<or>
            (\<exists>ex. map_of (elements m) (elem_id e) = Some ex \<and> timestamp e > timestamp ex))) \<and>
         (fst (applyOperation m e) \<longrightarrow>
            elements (snd (applyOperation m e)) = AList.delete (elem_id e) (elements m) \<and>
            map_of (elements (snd (applyOperation m e))) (elem_id e) = None) \<and>
         (\<not> fst (applyOperation m e) \<longrightarrow> snd (applyOperation m e) = m)"
  using assms
  by (auto simp: applyOperation_fst applyOperation_snd decide_def delete_conv' split: option.splits)

text \<open>
  The rectangle \<open>r1\<close> stored at time 1000: a delete at time 1200 removes it, a delete at
  time 900 is rejected and leaves the replica as it was.
\<close>

theorem C1_delete_rule_witness:
  "truthy (deleted (deletion ''r1'' 1200 ''bob'')) \<and>
   fst (applyOperation store1 (deletion ''r1'' 1200 ''bob'')) \<and>
   elements (snd (applyOperation store1 (deletion ''r1'' 1200 ''bob''))) = [] \<and>
   truthy (deleted (deletion ''r1'' 900 ''bob'')) \<and>
   \<not> fst (applyOperation store1 (deletion ''r1'' 900 ''bob'')) \<and>
   snd (applyOperation store1 (deletion ''r1'' 900 ''bob'')) = store1"
proof -
  have d1: "truthy (deleted (deletion ''r1'' 1200 ''bob''))"
    and d2: "truthy (deleted (deletion ''r1'' 900 ''bob''))"
    by (simp_all add: deletion_def truthy_def)
  have s: "map_of (elements store1) ''r1'' = Some fullRect" "timestamp fullRect = 1000"
    "elements store1 = [(''r1'', fullRect)]"
    by (simp_all add: store1_val) (simp add: fullRect_def element_def)
  have i: "elem_id (deletion ''r1'' 1200 ''bob'') = ''r1''"
    "timestamp (deletion ''r1'' 1200 ''bob'') = 1200"
    "elem_id (deletion ''r1'' 900 ''bob'') = ''r1''"
    "timestamp (deletion ''r1'' 900 ''bob'') = 900"
    by (simp_all add: deletion_def)
  show ?thesis
    using C1_delete_rule [OF d1, of store1] C1_delete_rule [OF d2, of store1] d1 d2
    by (simp add: s i)
qed

section \<open>Author tiebreak\<close>

text \<open>
  C2, as stated, fails: two pen strokes under one id with equal timestamps, the stored one
  by alice and the incoming one by bob, starting within 10 units of each other. The stroke
  rule decides by timestamp alone and rejects the incoming stroke of bob.
\<close>

theorem C2_author_tiebreak_counterexample:
  "elem_id (bobPen [pt 3 4] 1000) = elem_id alicePen \<and>
   timestamp (bobPen [pt 3 4] 1000) = timestamp alicePen \<and>
   \<not> truthy (deleted (bobPen [pt 3 4] 1000)) \<and> \<not> truthy (deleted alicePen) \<and>
   userId (bobPen [pt 3 4] 1000) = ''bob'' \<and> userId alicePen = ''alice'' \<and>
   map_of (elements storePen) (elem_id (bobPen [pt 3 4] 1000)) = Some alicePen \<and>
   \<not> shouldApplyOperation (bobPen [pt 3 4] 1000) alicePen \<and>
   \<not> fst (applyOperation storePen (bobPen [pt 3 4] 1000))"
  by (simp add: example_defs code_defs)

text \<open>
  C2, amended. For a non-deleted incoming element and the element stored under its id, with
  equal timestamps, one authored by alice and the other by bob: the incoming element is
  accepted exactly when its author is bob, provided no kind-specific rule decides first,
  that is, the incoming element is not a pen or eraser stroke meeting a stored drawing, and,
  when it is a drawing of another tool, the two elements are both complete or both
  incomplete.
\<close>

theorem C2_author_tiebreak_amended:
  assumes "map_of (elements m) (elem_id new) = Some ex"
    and "\<not> truthy (deleted new)"
    and "timestamp new = timestamp ex"
    and "userId new = ''alice'' \<and> userId ex = ''bob'' \<or>
         userId new = ''bob'' \<and> userId ex = ''alice''"
    and "\<not> (elem_type new = Drawing \<and> elem_type ex = Drawing \<and> strokeTool (tool (data new)))"
    and "elem_type new = Drawing \<and> \<not> strokeTool (tool (data new)) \<longrightarrow>
           isElementComplete new = isElementComplete ex"
  shows "(shouldApplyOperation new ex \<longleftrightarrow> userId new = ''bob'') \<and>
         (fst (applyOperation m new) \<longleftrightarrow> userId new = ''bob'')"
proof -
  have r: "resolveConcurrentConflict new ex \<longleftrightarrow> userId new > userId ex"
    using assms(5,6) by (auto simp: resolveConcurrentConflict_def)
  have s: "shouldApplyOperation new ex \<longleftrightarrow> userId new > userId ex"
    using assms(3) by (simp add: shouldApplyOperation_def areConcurrent_def r)
  have o: "userId new > userId ex \<longleftrightarrow> userId new = ''bob''"
    using assms(4) by auto
  show ?thesis
    using assms(1,2) by (simp add: applyOperation_fst decide_def s o)
qed

text \<open>
  Two text blocks at time 1000: bob's replaces alice's, alice's does not replace bob's.
\<close>

theorem C2_author_tiebreak_amended_witness:
  "map_of (elements (storeNote (textNote ''a'' 1000 ''alice'')))
     (elem_id (textNote ''b'' 1000 ''bob'')) = Some (textNote ''a'' 1000 ''alice'') \<and>
   fst (applyOperation (storeNote (textNote ''a'' 1000 ''alice'')) (textNote ''b'' 1000 ''bob'')) \<and>
   map_of (elements (storeNote (textNote ''b'' 1000 ''bob'')))
     (elem_id (textNote ''a'' 1000 ''alice'')) = Some (textNote ''b'' 1000 ''bob'') \<and>
   \<not> fst (applyOperation (storeNote (textNote ''b'' 1000 ''bob'')) (textNote ''a'' 1000 ''alice''))"
proof -
  let ?a = "textNote ''a'' 1000 ''alice''" and ?b = "textNote ''b'' 1000 ''bob''"
  have f: "elem_id ?a = ''m7''" "elem_id ?b = ''m7''"
    "\<not> truthy (deleted ?a)" "\<not> truthy (deleted ?b)"
    "timestamp ?a = timestamp ?b" "userId ?a = ''alice''" "userId ?b = ''bob''"
    "elem_type ?a = Markdown" "elem_type ?b = Markdown"
    by (simp_all add: textNote_def element_def truthy_def)
  have h1: "map_of (elements (storeNote ?a)) (elem_id ?b) = Some ?a"
    and h2: "map_of (elements (storeNote ?b)) (elem_id ?a) = Some ?b"
    by (simp_all add: storeNote_val f)
  have t1: "fst (applyOperation (storeNote ?a) ?b) \<longleftrightarrow> userId ?b = ''bob''"
    using C2_author_tiebreak_amended [OF h1] by (simp add: f)
  have t2: "fst (applyOperation (storeNote ?b) ?a) \<longleftrightarrow> userId ?a = ''bob''"
    using C2_author_tiebreak_amended [OF h2] by (simp add: f)
  show ?thesis using h1 h2 t1 t2 by (simp add: f)
qed

section \<open>Completeness\<close>

text \<open>
  C3 at text blocks. Carol's replica holds bob's empty text block of time 1000; alice's
  block with content \<open>hello\<close> arrives for the same id with timestamp 1200. The incoming
  block is complete, the stored one is not, the gap is within 500ms, and the incoming block
  is rejected: \<open>resolveConcurrentConflict\<close> compares completeness only for an incoming
  drawing, so text falls to the author tiebreak. In the other direction bob's blank block
  replaces alice's complete one of the same time.
\<close>

theorem C3_text_completeness_ignored:
  "map_of (elements (storeNote (textNote '''' 1000 ''bob'')))
     (elem_id (textNote ''hello'' 1200 ''alice'')) = Some (textNote '''' 1000 ''bob'') \<and>
   \<bar>timestamp (textNote ''hello'' 1200 ''alice'') - timestamp (textNote '''' 1000 ''bob'')\<bar> \<le> 500 \<and>
   isElementComplete (textNote ''hello'' 1200 ''alice'') \<and>
   \<not> isElementComplete (textNote '''' 1000 ''bob'') \<and>
   \<not> fst (applyOperation (storeNote (textNote '''' 1000 ''bob'')) (textNote ''hello'' 1200 ''alice'')) \<and>
   map_of (elements (storeNote (textNote ''hello'' 1000 ''alice'')))
     (elem_id (textNote ''  '' 1000 ''bob'')) = Some (textNote ''hello'' 1000 ''alice'') \<and>
   \<not> isElementComplete (textNote ''  '' 1000 ''bob'') \<and>
   fst (applyOperation (storeNote (textNote ''hello'' 1000 ''alice'')) (textNote ''  '' 1000 ''bob''))"
  by (simp add: example_defs code_defs trim_def isWhiteSpace_def)

text \<open>
  For an incoming drawing of a tool other than pen and eraser the completeness rule is in
  force: within 500ms, when exactly one of the two elements is complete, the incoming one is
  accepted exactly when it is the complete one.
\<close>

lemma completeness_override_shapes:
  assumes "map_of (elements m) (elem_id new) = Some ex"
    and "\<not> truthy (deleted new)"
    and "\<bar>timestamp new - timestamp ex\<bar> \<le> 500"
    and "elem_type new = Drawing" and "\<not> strokeTool (tool (data new))"
    and "isElementComplete new \<noteq> isElementComplete ex"
  shows "fst (applyOperation m new) \<longleftrightarrow> isElementComplete new"
  using assms
  by (auto simp: applyOperation_fst decide_def shouldApplyOperation_def areConcurrent_def
      resolveConcurrentConflict_def)

text \<open>
  The rectangle with only its start corner, 200ms after the complete rectangle of the same
  id, is rejected and the replica stays as it was.
\<close>

lemma completeness_override_rectangle:
  "map_of (elements store1) (elem_id partRect) = Some fullRect \<and>
   timestamp partRect = timestamp fullRect + 200 \<and>
   startX (data partRect) \<noteq> None \<and> startY (data partRect) \<noteq> None \<and>
   endX (data partRect) = None \<and> endY (data partRect) = None \<and>
   isElementComplete fullRect \<and> \<not> isElementComplete partRect \<and>
   \<not> fst (applyOperation store1 partRect) \<and> snd (applyOperation store1 partRect) = store1"
  by (simp add: example_defs code_defs)

section \<open>Strokes of different authors\<close>

text \<open>
  C4. Two drawings with a pen or eraser tool, by different authors, with timestamps at most
  500ms apart: if the first points of their paths (the origin for an empty or missing path)
  differ by less than 10 on both axes, the incoming one is accepted exactly when its
  timestamp is greater; otherwise it is accepted. When the other one is the element stored
  under the incoming id and the incoming one is not deleted, this is the result of
  \<open>applyOperation\<close>, and on acceptance the incoming element is the one stored.
\<close>

theorem C4_stroke_positions:
  assumes "elem_type new = Drawing" and "elem_type ex = Drawing"
    and "strokeTool (tool (data new))" and "strokeTool (tool (data ex))"
    and "userId new \<noteq> userId ex"
    and "\<bar>timestamp new - timestamp ex\<bar> \<le> 500"
  shows "(shouldApplyOperation new ex \<longleftrightarrow>
           (if \<bar>point_x (firstPoint (pathOf (data new))) -
                point_x (firstPoint (pathOf (data ex)))\<bar> < 10 \<and>
               \<bar>point_y (firstPoint (pathOf (data new))) -
                point_y (firstPoint (pathOf (data ex)))\<bar> < 10
            then timestamp new > timestamp ex else True)) \<and>
         (map_of (elements m) (elem_id new) = Some ex \<and> \<not> truthy (deleted new) \<longrightarrow>
            fst (applyOperation m new) = shouldApplyOperation new ex \<and>
            (fst (applyOperation m new) \<longrightarrow>
               map_of (elements (snd (applyOperation m new))) (elem_id new) = Some new))"
  using assms
  by (auto simp: applyOperation_fst elements_applyOperation decide_def shouldApplyOperation_def
      areConcurrent_def resolveConcurrentConflict_def Let_def)

text \<open>
  Against alice's stroke from the origin at time 1000: bob's stroke from (3, 4) is accepted
  at time 1100 and rejected at time 900; his stroke from (3, 40) is accepted at time 900 and
  replaces hers.
\<close>

theorem C4_stroke_positions_witness:
  "map_of (elements storePen) (elem_id (bobPen [pt 3 4] 1100)) = Some alicePen \<and>
   fst (applyOperation storePen (bobPen [pt 3 4] 1100)) \<and>
   \<not> fst (applyOperation storePen (bobPen [pt 3 4] 900)) \<and>
   fst (applyOperation storePen (bobPen [pt 3 40] 900)) \<and>
   map_of (elements (snd (applyOperation storePen (bobPen [pt 3 40] 900)))) ''s1'' =
     Some (bobPen [pt 3 40] 900)"
proof -
  have f: "elem_id (bobPen ps ts) = ''s1''" "\<not> truthy (deleted (bobPen ps ts))"
    "elem_type (bobPen ps ts) = Drawing" "elem_type alicePen = Drawing"
    "strokeTool (tool (data (bobPen ps ts)))" "strokeTool (tool (data alicePen))"
    "userId (bobPen ps ts) \<noteq> userId alicePen" "timestamp (bobPen ps ts) = ts"
    "timestamp alicePen = 1000"
    "firstPoint (pathOf (data alicePen)) = pt 0 0"
    "firstPoint (pathOf (data (bobPen (pt a b # qs) ts))) = pt a b"
    "point_x (pt a b) = a" "point_y (pt a b) = b" for ps ts a b qs
    by (simp_all add: example_defs code_defs)
  have h: "map_of (elements storePen) (elem_id (bobPen ps ts)) = Some alicePen" for ps ts
    by (simp add: storePen_val f)
  have g: "\<bar>timestamp (bobPen ps 1100) - timestamp alicePen\<bar> \<le> 500"
    "\<bar>timestamp (bobPen ps 900) - timestamp alicePen\<bar> \<le> 500" for ps
    by (simp_all add: f)
  note t = C4_stroke_positions [OF f(3) f(4) f(5) f(6) f(7), where m = storePen]
  show ?thesis
    using t [OF g(1), of "[pt 3 4]"] t [OF g(2), of "[pt 3 4]"] t [OF g(2), of "[pt 3 40]"] h
    by (simp add: f)
qed

section \<open>Applying an operation twice\<close>

text \<open>
  C5, as stated, fails at a deleted element: a delete of an id that is not stored is
  accepted, and accepted again when applied a second time, so the counter of its author
  goes to 1 and then to 2.
\<close>

theorem C5_idempotence_counterexample:
  "fst (applyOperation (constructor ''alice'') (deletion ''r1'' 1200 ''bob'')) \<and>
   snd (applyOperation (snd (applyOperation (constructor ''alice'') (deletion ''r1'' 1200 ''bob'')))
          (deletion ''r1'' 1200 ''bob'')) \<noteq>
   snd (applyOperation (constructor ''alice'') (deletion ''r1'' 1200 ''bob'')) \<and>
   vector (snd (applyOperation (constructor ''alice'') (deletion ''r1'' 1200 ''bob''))) =
     [(''alice'', 0), (''bob'', 1)] \<and>
   vector (snd (applyOperation
                  (snd (applyOperation (constructor ''alice'') (deletion ''r1'' 1200 ''bob'')))
                  (deletion ''r1'' 1200 ''bob''))) = [(''alice'', 0), (''bob'', 2)]"
  by (simp add: example_defs code_defs)

text \<open>
  C5, amended. When \<open>applyOperation\<close> accepts an element, applying the same element again
  right afterwards leaves the elements map as it is after the first application. If the
  element is not deleted, the second application is rejected and the whole replica,
  counters included, is unchanged. If the element is deleted, the second application is
  accepted again and sets the counter of its author to one more than before.
\<close>

theorem C5_idempotence_amended:
  assumes "fst (applyOperation m e)"
  shows "elements (snd (applyOperation (snd (applyOperation m e)) e)) =
           elements (snd (applyOperation m e)) \<and>
         (\<not> truthy (deleted e) \<longrightarrow>
            \<not> fst (applyOperation (snd (applyOperation m e)) e) \<and>
            snd (applyOperation (snd (applyOperation m e)) e) = snd (applyOperation m e)) \<and>
         (truthy (deleted e) \<longrightarrow>
            fst (applyOperation (snd (applyOperation m e)) e) \<and>
            map_of (vector (snd (applyOperation (snd (applyOperation m e)) e))) (userId e) =
              Some (orElse (map_of (vector (snd (applyOperation m e))) (userId e)) 0 + 1) \<and>
            map_of (vector (snd (applyOperation (snd (applyOperation m e)) e))) (userId e) \<noteq>
              map_of (vector (snd (applyOperation m e))) (userId e))"
proof (cases "truthy (deleted e)")
  case True
  let ?m1 = "snd (applyOperation m e)"
  have none: "map_of (elements ?m1) (elem_id e) = None"
    using assms True by (simp add: elements_applyOperation applyOperation_fst)
  have acc: "fst (applyOperation ?m1 e)"
    by (simp add: applyOperation_fst none decide_def)
  have el1: "elements ?m1 = AList.delete (elem_id e) (elements m)"
    using assms True by (simp add: applyOperation_snd applyOperation_fst)
  have el2: "elements (snd (applyOperation ?m1 e)) = AList.delete (elem_id e) (elements ?m1)"
    using acc True by (simp add: applyOperation_snd applyOperation_fst)
  have els: "elements (snd (applyOperation ?m1 e)) = elements ?m1"
    by (simp add: el2 el1 delete_idem)
  have vec: "map_of (vector (snd (applyOperation ?m1 e))) = bump (map_of (vector ?m1)) (userId e)"
    using acc by (simp add: vector_applyOperation applyOperation_fst)
  have v1: "bump (map_of (vector ?m1)) (userId e) (userId e) =
              Some (orElse (map_of (vector ?m1) (userId e)) 0 + 1)"
    by (simp add: bump_def)
  have ne: "bump (map_of (vector ?m1)) (userId e) (userId e) \<noteq> map_of (vector ?m1) (userId e)"
    by (auto simp: bump_def orElse_def split: option.splits)
  show ?thesis using True acc els vec v1 ne by simp
next
  case False
  let ?m1 = "snd (applyOperation m e)"
  have some: "map_of (elements ?m1) (elem_id e) = Some e"
    using assms False by (simp add: elements_applyOperation applyOperation_fst)
  have rej: "\<not> fst (applyOperation ?m1 e)"
    using False by (simp add: applyOperation_fst some decide_def shouldApplyOperation_self)
  then have "snd (applyOperation ?m1 e) = ?m1"
    by (simp add: applyOperation_snd applyOperation_fst)
  then show ?thesis using False rej by simp
qed

text \<open>
  The rectangle applied twice to a fresh replica leaves \<open>store1\<close>; the delete of time 1200
  applied twice to \<open>store1\<close> leaves no element and bob's counter at 2.
\<close>

theorem C5_idempotence_amended_witness:
  "fst (applyOperation (constructor ''alice'') fullRect) \<and>
   \<not> truthy (deleted fullRect) \<and>
   snd (applyOperation store1 fullRect) = store1 \<and>
   fst (applyOperation store1 (deletion ''r1'' 1200 ''bob'')) \<and>
   truthy (deleted (deletion ''r1'' 1200 ''bob'')) \<and>
   elements (snd (applyOperation (snd (applyOperation store1 (deletion ''r1'' 1200 ''bob'')))
       (deletion ''r1'' 1200 ''bob''))) = [] \<and>
   map_of (vector (snd (applyOperation (snd (applyOperation store1 (deletion ''r1'' 1200 ''bob'')))
       (deletion ''r1'' 1200 ''bob'')))) ''bob'' = Some 2"
proof -
  have a1: "fst (applyOperation (constructor ''alice'') fullRect)"
    by (simp add: example_defs code_defs)
  have n1: "\<not> truthy (deleted fullRect)"
    by (simp add: example_defs truthy_def)
  have a2: "fst (applyOperation store1 (deletion ''r1'' 1200 ''bob''))"
    by (simp add: example_defs code_defs)
  have d2: "truthy (deleted (deletion ''r1'' 1200 ''bob''))"
    "userId (deletion ''r1'' 1200 ''bob'') = ''bob''"
    by (simp_all add: deletion_def truthy_def)
  have v: "vector (snd (applyOperation store1 (deletion ''r1'' 1200 ''bob''))) =
             [(''alice'', 1), (''bob'', 1)]"
    "elements (snd (applyOperation store1 (deletion ''r1'' 1200 ''bob''))) = []"
    by (simp_all add: example_defs code_defs)
  show ?thesis
    using C5_idempotence_amended [OF a1] C5_idempotence_amended [OF a2] a1 n1 a2 d2 v
    by (simp add: store1_def orElse_def)
qed

section \<open>Operations on different ids\<close>

text \<open>
  C6. For elements \<open>a\<close> and \<open>b\<close> with different ids and any replica, applying \<open>a\<close> then
  \<open>b\<close> gives the same elements mapping and the same counters mapping as applying \<open>b\<close>
  then \<open>a\<close>. The two results are compared as mappings from keys to values, through
  \<open>map_of\<close>: the order in which a \<open>Map\<close> enumerates its entries follows the order of
  insertion and can differ.
\<close>

theorem C6_distinct_ids_commute:
  assumes "elem_id a \<noteq> elem_id b"
  shows "map_of (elements (snd (applyOperation (snd (applyOperation m a)) b))) =
         map_of (elements (snd (applyOperation (snd (applyOperation m b)) a))) \<and>
         map_of (vector (snd (applyOperation (snd (applyOperation m a)) b))) =
         map_of (vector (snd (applyOperation (snd (applyOperation m b)) a))) \<and>
         localUserId (snd (applyOperation (snd (applyOperation m a)) b)) =
         localUserId (snd (applyOperation (snd (applyOperation m b)) a))"
proof -
  have ab: "map_of (elements (snd (applyOperation m a))) (elem_id b) =
            map_of (elements m) (elem_id b)"
    using assms by (simp add: elements_applyOperation)
  have ba: "map_of (elements (snd (applyOperation m b))) (elem_id a) =
            map_of (elements m) (elem_id a)"
    using assms by (simp add: elements_applyOperation)
  have els: "map_of (elements (snd (applyOperation (snd (applyOperation m a)) b))) =
         map_of (elements (snd (applyOperation (snd (applyOperation m b)) a)))"
    using assms by (auto simp: elements_applyOperation fun_upd_twist)
  have vec: "map_of (vector (snd (applyOperation (snd (applyOperation m a)) b))) =
         map_of (vector (snd (applyOperation (snd (applyOperation m b)) a)))"
    by (simp add: vector_applyOperation ab ba bump_commute)
  show ?thesis using els vec by simp
qed

text \<open>
  The rectangle of alice and a text block of bob, on a fresh replica of carol: both orders
  store both elements and count one operation for each author.
\<close>

theorem C6_distinct_ids_commute_witness:
  "elem_id fullRect \<noteq> elem_id (textNote ''note'' 1100 ''bob'') \<and>
   elements (snd (applyOperation (snd (applyOperation (constructor ''carol'') fullRect))
                    (textNote ''note'' 1100 ''bob''))) =
     [(''r1'', fullRect), (''m7'', textNote ''note'' 1100 ''bob'')] \<and>
   elements (snd (applyOperation (snd (applyOperation (constructor ''carol'')
                    (textNote ''note'' 1100 ''bob''))) fullRect)) =
     [(''m7'', textNote ''note'' 1100 ''bob''), (''r1'', fullRect)] \<and>
   map_of (elements (snd (applyOperation (snd (applyOperation (constructor ''carol'') fullRect))
                    (textNote ''note'' 1100 ''bob'')))) =
   map_of (elements (snd (applyOperation (snd (applyOperation (constructor ''carol'')
                    (textNote ''note'' 1100 ''bob''))) fullRect))) \<and>
   map_of (vector (snd (applyOperation (snd (applyOperation (constructor ''carol'') fullRect))
                    (textNote ''note'' 1100 ''bob'')))) =
   map_of (vector (snd (applyOperation (snd (applyOperation (constructor ''carol'')
                    (textNote ''note'' 1100 ''bob''))) fullRect)))"
proof -
  have h: "elem_id fullRect \<noteq> elem_id (textNote ''note'' 1100 ''bob'')"
    by (simp add: example_defs)
  have e: "elements (snd (applyOperation (snd (applyOperation (constructor ''carol'') fullRect))
                    (textNote ''note'' 1100 ''bob''))) =
     [(''r1'', fullRect), (''m7'', textNote ''note'' 1100 ''bob'')]"
    "elements (snd (applyOperation (snd (applyOperation (constructor ''carol'')
                    (textNote ''note'' 1100 ''bob''))) fullRect)) =
     [(''m7'', textNote ''note'' 1100 ''bob''), (''r1'', fullRect)]"
    by (simp_all add: example_defs code_defs)
  show ?thesis
    using C6_distinct_ids_commute [OF h, of "constructor ''carol''"] h e by blast
qed

section \<open>Deletion by id\<close>

text \<open>
  C7. Handling a \<open>delete\<close> message for an id, on a component that holds a replica, leaves
  the replica with exactly the entries it had under other ids and none under that id,
  whatever was stored there and whatever its timestamp: the new elements map is the old one
  with the key removed, which is \<open>deleteElement\<close> and not \<open>applyOperation\<close>; the counters
  and the local user id are unchanged; the id is gone from the component's own map too.
\<close>

theorem C7_delete_by_id:
  assumes "crdtManager w = Some m"
  shows "crdtManager (onMessage w (Delete i)) = Some (deleteElement m i) \<and>
         elements (deleteElement m i) = AList.delete i (elements m) \<and>
         vector (deleteElement m i) = vector m \<and>
         localUserId (deleteElement m i) = localUserId m \<and>
         map_of (elements (deleteElement m i)) i = None \<and>
         (\<forall>j. j \<noteq> i \<longrightarrow> map_of (elements (deleteElement m i)) j = map_of (elements m) j) \<and>
         map_of (wb_elements (onMessage w (Delete i))) i = None"
  using assms by (simp add: deleteElement_def delete_conv' Let_def)

text \<open>
  The rectangle \<open>r1\<close> of time 1000: a delete operation of time 900 is rejected, the
  \<open>delete\<close> message removes it and leaves the counters alone.
\<close>

theorem C7_delete_by_id_witness:
  "crdtManager board1 = Some store1 \<and>
   map_of (elements store1) ''r1'' = Some fullRect \<and>
   \<not> fst (applyOperation store1 (deletion ''r1'' 900 ''bob'')) \<and>
   crdtManager (onMessage board1 (Delete ''r1'')) = Some (deleteElement store1 ''r1'') \<and>
   elements (deleteElement store1 ''r1'') = [] \<and>
   vector (deleteElement store1 ''r1'') = [(''alice'', 1)]"
proof -
  have h: "crdtManager board1 = Some store1" by (simp add: board1_def)
  have r: "\<not> fst (applyOperation store1 (deletion ''r1'' 900 ''bob''))"
    by (simp add: example_defs code_defs)
  show ?thesis
    using C7_delete_by_id [OF h, of "''r1''"] h r by (simp add: store1_val)
qed

section \<open>What the decision reads\<close>

text \<open>
  C8. Two replicas that hold the same entry (or both none) under the id of an element give
  the same result of \<open>applyOperation\<close> for it, whatever their counters, their local user
  ids and their entries under other ids.
\<close>

theorem C8_decision_local:
  assumes "map_of (elements m1) (elem_id e) = map_of (elements m2) (elem_id e)"
  shows "fst (applyOperation m1 e) = fst (applyOperation m2 e)"
  using assms by (simp add: applyOperation_fst)

text \<open>
  \<open>store1\<close> and \<open>store2\<close> agree on \<open>r1\<close> only; both reject the partial rectangle.
\<close>

theorem C8_decision_local_witness:
  "map_of (elements store1) (elem_id partRect) = map_of (elements store2) (elem_id partRect) \<and>
   vector store1 \<noteq> vector store2 \<and> elements store1 \<noteq> elements store2 \<and>
   fst (applyOperation store1 partRect) = fst (applyOperation store2 partRect) \<and>
   \<not> fst (applyOperation store2 partRect)"
proof -
  have h: "map_of (elements store1) (elem_id partRect) = map_of (elements store2) (elem_id partRect)"
    by (simp add: store1_val store2_def partRect_def element_def)
  have r: "\<not> fst (applyOperation store2 partRect)"
    by (simp add: example_defs code_defs)
  show ?thesis
    using C8_decision_local [OF h] h r by (simp add: store1_val store2_def)
qed

section \<open>Reconnection\<close>

lemma attemptReconnect_below:
  "reconnectAttempts s < 5 \<Longrightarrow>
   attemptReconnect s url (roomId s) =
     (s\<lparr>reconnectAttempts := reconnectAttempts s + 1\<rparr>, Some (1000 * (reconnectAttempts s + 1)))"
  by (simp add: attemptReconnect_def maxReconnectAttempts_def reconnectDelay_def Let_def)

lemma attemptReconnect_cap:
  "5 \<le> reconnectAttempts s \<Longrightarrow> attemptReconnect s url rid = (s, None)"
  by (simp add: attemptReconnect_def maxReconnectAttempts_def)

lemma attemptReconnect_Some:
  "attemptReconnect s url rid = (s', Some d) \<Longrightarrow>
   rid = roomId s \<and> reconnectAttempts s' = reconnectAttempts s + 1 \<and>
   1 \<le> reconnectAttempts s' \<and> reconnectAttempts s' \<le> 5 \<and> d = 1000 * reconnectAttempts s'"
  by (auto simp: attemptReconnect_def maxReconnectAttempts_def reconnectDelay_def Let_def
      split: if_splits)

lemma backoff_step:
  "c < 5 \<Longrightarrow>
   map f [Suc c..<Suc (min (c + Suc n) 5)] @ (if 5 < c + Suc n then [None] else []) =
   f (Suc c) # (map f [Suc (Suc c)..<Suc (min (Suc c + n) 5)] @
                (if 5 < Suc c + n then [None] else []))"
proof -
  assume "c < 5"
  then have "Suc c < Suc (min (c + Suc n) 5)" by simp
  then have "[Suc c..<Suc (min (c + Suc n) 5)] = Suc c # [Suc (Suc c)..<Suc (min (c + Suc n) 5)]"
    by (rule upt_conv_Cons)
  then show ?thesis by (simp del: upt_Suc)
qed

lemma failures_from:
  "reconnectAttempts s \<le> 5 \<Longrightarrow>
   failures n s =
     map (\<lambda>k. Some (1000 * k))
       [Suc (reconnectAttempts s)..<Suc (min (reconnectAttempts s + n) 5)] @
     (if 5 < reconnectAttempts s + n then [None] else [])"
proof (induction n arbitrary: s)
  case 0
  then show ?case by simp
next
  case (Suc n)
  show ?case
  proof (cases "reconnectAttempts s < 5")
    case True
    define s1 where "s1 = (clearDrawingState s)\<lparr>reconnectAttempts := reconnectAttempts s + 1\<rparr>"
    define s2 where "s2 = reconnectTimer s1 (currentUrl s) (roomId s)"
    have oc: "onclose s (currentUrl s) (roomId s) = (s1, Some (1000 * Suc (reconnectAttempts s)))"
      using True attemptReconnect_below [of "clearDrawingState s" "currentUrl s"]
      by (simp add: onclose_def clearDrawingState_def s1_def)
    have c2: "reconnectAttempts s2 = Suc (reconnectAttempts s)"
      by (simp add: s2_def s1_def reconnectTimer_def connectToRoom_def disconnect_def
          clearDrawingState_def)
    have unf: "failures (Suc n) s = Some (1000 * Suc (reconnectAttempts s)) # failures n s2"
      by (simp add: oc s2_def)
    have "reconnectAttempts s2 \<le> 5" using True c2 by simp
    then have ih: "failures n s2 =
        map (\<lambda>k. Some (1000 * k))
          [Suc (Suc (reconnectAttempts s))..<Suc (min (Suc (reconnectAttempts s) + n) 5)] @
        (if 5 < Suc (reconnectAttempts s) + n then [None] else [])"
      using Suc.IH [of s2] by (simp only: c2)
    show ?thesis
      by (simp only: unf ih backoff_step [OF True])
  next
    case False
    with Suc.prems have c: "reconnectAttempts s = 5" by simp
    have "onclose s (currentUrl s) (roomId s) = (clearDrawingState s, None)"
      using attemptReconnect_cap [of "clearDrawingState s"] c
      by (simp add: onclose_def clearDrawingState_def)
    then show ?thesis using c by simp
  qed
qed

lemma step_counter:
  "reconnectAttempts (fst (step s ev)) < reconnectAttempts s \<Longrightarrow>
   ev = OnOpen \<or> (\<exists>r. ev = SwitchRoom r)"
  by (cases ev)
    (auto simp: connect_def connectToRoom_def disconnect_def clearDrawingState_def
      onclose_def attemptReconnect_def reconnectTimer_def sendOperation_def
      handleDrawingEnd_def Let_def split: if_splits)

text \<open>
  C9. With fewer than 5 attempts counted, \<open>attemptReconnect\<close> for the current room counts
  one more and sets a timer of 1000ms times the new count; with 5 counted it sets no timer
  and changes nothing. Whenever it sets a timer, the new count is between 1 and 5 and the
  delay is 1000ms times it. From a count of 0, successive failures schedule 1000, 2000,
  3000, 4000, 5000ms and then nothing. The count is 0 after the socket opens and after
  \<open>switchRoom\<close>, and no other event lowers it.
\<close>

theorem C9_reconnect_backoff:
  "(reconnectAttempts s < 5 \<longrightarrow>
      attemptReconnect s url (roomId s) =
        (s\<lparr>reconnectAttempts := reconnectAttempts s + 1\<rparr>,
         Some (1000 * (reconnectAttempts s + 1)))) \<and>
   (5 \<le> reconnectAttempts s \<longrightarrow> attemptReconnect s url rid = (s, None)) \<and>
   (\<forall>s' d. attemptReconnect s url rid = (s', Some d) \<longrightarrow>
      reconnectAttempts s' = reconnectAttempts s + 1 \<and>
      1 \<le> reconnectAttempts s' \<and> reconnectAttempts s' \<le> 5 \<and> d = 1000 * reconnectAttempts s') \<and>
   (reconnectAttempts s = 0 \<longrightarrow>
      failures n s = map (\<lambda>k. Some (1000 * k)) [1..<Suc (min n 5)] @
                     (if 5 < n then [None] else [])) \<and>
   reconnectAttempts (fst (step s OnOpen)) = 0 \<and>
   reconnectAttempts (fst (step s (SwitchRoom r))) = 0 \<and>
   (\<forall>ev. reconnectAttempts (fst (step s ev)) < reconnectAttempts s \<longrightarrow>
      ev = OnOpen \<or> (\<exists>r. ev = SwitchRoom r))"
proof -
  have f: "reconnectAttempts s = 0 \<Longrightarrow>
      failures n s = map (\<lambda>k. Some (1000 * k)) [1..<Suc (min n 5)] @
                     (if 5 < n then [None] else [])"
    using failures_from [of s n] by simp
  have o: "reconnectAttempts (fst (step s OnOpen)) = 0"
    "reconnectAttempts (fst (step s (SwitchRoom r))) = 0"
    by (simp_all add: onopen_def switchRoom_def connectToRoom_def disconnect_def
        clearDrawingState_def)
  show ?thesis
    using attemptReconnect_below [of s url] attemptReconnect_cap [of s url rid]
      attemptReconnect_Some [of s url rid] f o step_counter [of s]
    by blast
qed

text \<open>
  A new service fails seven times: five timers of 1000 to 5000ms, then none. At a count of
  5 nothing is scheduled; after \<open>switchRoom\<close> the same five delays are scheduled again.
\<close>

theorem C9_reconnect_backoff_witness:
  "reconnectAttempts (newService ''alice'' ''room1'') = 0 \<and>
   failures 7 (newService ''alice'' ''room1'') =
     [Some 1000, Some 2000, Some 3000, Some 4000, Some 5000, None] \<and>
   reconnectAttempts ((newService ''alice'' ''room1'')\<lparr>reconnectAttempts := 5\<rparr>) = 5 \<and>
   attemptReconnect ((newService ''alice'' ''room1'')\<lparr>reconnectAttempts := 5\<rparr>)
       ''ws://h'' ''room1'' =
     ((newService ''alice'' ''room1'')\<lparr>reconnectAttempts := 5\<rparr>, None) \<and>
   failures 7 (fst (step ((newService ''alice'' ''room1'')\<lparr>reconnectAttempts := 5\<rparr>)
                      (SwitchRoom ''room2''))) =
     [Some 1000, Some 2000, Some 3000, Some 4000, Some 5000, None]"
proof -
  define s where "s = newService ''alice'' ''room1''"
  define s5 where "s5 = s\<lparr>reconnectAttempts := 5\<rparr>"
  define s6 where "s6 = fst (step s5 (SwitchRoom ''room2''))"
  have z: "reconnectAttempts s = 0" by (simp add: s_def newService_def)
  have z5: "5 \<le> reconnectAttempts s5" "reconnectAttempts s5 = 5" by (simp_all add: s5_def)
  have u: "map (\<lambda>k. Some (1000 * k)) [1..<Suc (min 7 5)] @ (if (5::nat) < 7 then [None] else []) =
       [Some 1000, Some 2000, Some 3000, Some 4000, Some (5000::nat), None]"
    by (simp add: upt_rec)
  note t = C9_reconnect_backoff [of s "''ws://h''" "''room1''" 7 "''room2''"]
  note t5 = C9_reconnect_backoff [of s5 "''ws://h''" "''room1''" 7 "''room2''"]
  note t6 = C9_reconnect_backoff [of s6 "''ws://h''" "''room1''" 7 "''room2''"]
  have f1: "failures 7 s = [Some 1000, Some 2000, Some 3000, Some 4000, Some 5000, None]"
    using t [THEN conjunct2, THEN conjunct2, THEN conjunct2, THEN conjunct1] z u by simp
  have cap: "attemptReconnect s5 ''ws://h'' ''room1'' = (s5, None)"
    using t5 [THEN conjunct2, THEN conjunct1] z5 by simp
  have z6: "reconnectAttempts s6 = 0"
    using t5 [THEN conjunct2, THEN conjunct2, THEN conjunct2, THEN conjunct2, THEN conjunct2,
        THEN conjunct1]
    by (simp only: s6_def)
  have f2: "failures 7 s6 = [Some 1000, Some 2000, Some 3000, Some 4000, Some 5000, None]"
    using t6 [THEN conjunct2, THEN conjunct2, THEN conjunct2, THEN conjunct1] z6 u by simp
  show ?thesis
    using z z5 f1 cap f2 by (simp only: s_def s5_def s6_def)
qed

section \<open>No deleted element is stored\<close>

lemma set_update_subset: "set (AList.update k v al) \<subseteq> insert (k, v) (set al)"
  by (induction al) auto

lemma noDeleted_iff:
  "noDeletedStored m \<longleftrightarrow> (\<forall>(k, el) \<in> set (elements m). \<not> truthy (deleted el))"
  by (simp add: noDeletedStored_def list_all_iff)

lemma noDeleted_applyOperation:
  assumes "noDeletedStored m"
  shows "noDeletedStored (snd (applyOperation m e))"
proof (cases "decide e (map_of (elements m) (elem_id e))")
  case False
  then show ?thesis using assms by (simp add: applyOperation_snd)
next
  case True
  show ?thesis
  proof (cases "truthy (deleted e)")
    case del: True
    have "set (AList.delete (elem_id e) (elements m)) \<subseteq> set (elements m)"
      by (auto simp: AList.delete_eq)
    then show ?thesis using assms True del
      by (auto simp: applyOperation_snd noDeleted_iff)
  next
    case nd: False
    have "set (AList.update (elem_id e) e (elements m)) \<subseteq> insert (elem_id e, e) (set (elements m))"
      by (rule set_update_subset)
    then show ?thesis using assms True nd
      by (auto simp: applyOperation_snd noDeleted_iff)
  qed
qed

lemma noDeleted_merge: "noDeletedStored m \<Longrightarrow> noDeletedStored (merge m es)"
  unfolding merge_def
  by (induction es arbitrary: m) (simp_all add: noDeleted_applyOperation)

lemma noDeleted_call:
  assumes "noDeletedStored m"
  shows "noDeletedStored (call c m)"
proof (cases c)
  case (ApplyOperation e)
  then show ?thesis using assms by (simp add: noDeleted_applyOperation)
next
  case (Merge es)
  then show ?thesis using assms by (simp add: noDeleted_merge)
next
  case (DeleteElement i)
  have "set (AList.delete i (elements m)) \<subseteq> set (elements m)"
    by (auto simp: AList.delete_eq)
  then show ?thesis using assms DeleteElement
    by (auto simp: noDeleted_iff deleteElement_def)
next
  case Clear
  then show ?thesis by (simp add: noDeletedStored_def clear_def)
next
  case (SetVectorClock v)
  then show ?thesis using assms by (simp add: noDeletedStored_def setVectorClock_def)
qed

lemma noDeleted_fold: "noDeletedStored m \<Longrightarrow> noDeletedStored (fold call cs m)"
  by (induction cs arbitrary: m) (simp_all add: noDeleted_call)

lemma getAllElements_all: "noDeletedStored m \<Longrightarrow> getAllElements m = map snd (elements m)"
  by (auto simp: getAllElements_def noDeleted_iff filter_id_conv)

text \<open>
  C10. After any sequence of calls of \<open>applyOperation\<close>, \<open>merge\<close>, \<open>deleteElement\<close>,
  \<open>clear\<close> (and \<open>setVectorClock\<close>) on a new replica, no stored element has
  \<open>deleted = true\<close>, and \<open>getAllElements\<close> returns every stored element, in the order
  of the map.
\<close>

theorem C10_no_deleted_stored:
  "noDeletedStored (run uid calls) \<and>
   getAllElements (run uid calls) = map snd (elements (run uid calls))"
proof -
  have "noDeletedStored (constructor uid)"
    by (simp add: noDeletedStored_def constructor_def)
  then have "noDeletedStored (run uid calls)"
    unfolding run_def by (rule noDeleted_fold)
  then show ?thesis by (simp add: getAllElements_all)
qed

text \<open>
  Alice draws the rectangle, then a batch brings bob's text block and his delete of the
  rectangle, then an unknown id is deleted: the text block alone is stored and returned.
\<close>

theorem C10_no_deleted_stored_witness:
  "noDeletedStored (run ''alice'' [ApplyOperation fullRect,
       Merge [textNote ''note'' 1100 ''bob'', deletion ''r1'' 1200 ''bob''],
       DeleteElement ''zz'']) \<and>
   elements (run ''alice'' [ApplyOperation fullRect,
       Merge [textNote ''note'' 1100 ''bob'', deletion ''r1'' 1200 ''bob''],
       DeleteElement ''zz'']) = [(''m7'', textNote ''note'' 1100 ''bob'')] \<and>
   getAllElements (run ''alice'' [ApplyOperation fullRect,
       Merge [textNote ''note'' 1100 ''bob'', deletion ''r1'' 1200 ''bob''],
       DeleteElement ''zz'']) = [textNote ''note'' 1100 ''bob'']"
proof -
  let ?cs = "[ApplyOperation fullRect,
       Merge [textNote ''note'' 1100 ''bob'', deletion ''r1'' 1200 ''bob''],
       DeleteElement ''zz'']"
  have e: "elements (run ''alice'' ?cs) = [(''m7'', textNote ''note'' 1100 ''bob'')]"
    by (simp add: run_def merge_def deleteElement_def example_defs code_defs)
  show ?thesis
    using C10_no_deleted_stored [of "''alice''" ?cs] by (simp add: e)
qed

end
